theory Spec2Isabelle
  imports Complex_Main
begin

section \<open>Python values held by the ledger\<close>

text \<open>
  The tracker is dynamically typed: an expense read back from the JSON file carries whatever
  scalar the file holds in its \<^verbatim>\<open>amount\<close>, \<^verbatim>\<open>category\<close> and \<^verbatim>\<open>description\<close> fields.
  The model therefore keeps these fields as Python scalars (\<open>None\<close>, \<open>bool\<close>, \<open>int\<close>,
  \<open>float\<close>, \<open>str\<close>). Nested JSON arrays and objects as field values are outside the model.

  A Python \<open>float\<close> is an IEEE-754 binary64 number: a finite value (kept as the rational it
  denotes), one of the two infinities, or NaN. The two zeros are not told apart; they compare
  equal in Python and both are falsy.
\<close>

datatype pyfloat = Finite rat | PInf | NInf | NaN

datatype pyval = PNone | PBool bool | PInt int | PFloat pyfloat | PStr string

text \<open>Comparison of floats as IEEE-754 has it: every comparison with NaN is false.\<close>

fun float_le :: "pyfloat \<Rightarrow> pyfloat \<Rightarrow> bool" where
  "float_le NaN _ = False"
| "float_le _ NaN = False"
| "float_le NInf _ = True"
| "float_le _ PInf = True"
| "float_le (Finite a) (Finite b) = (a \<le> b)"
| "float_le PInf _ = False"
| "float_le _ NInf = False"

fun float_lt :: "pyfloat \<Rightarrow> pyfloat \<Rightarrow> bool" where
  "float_lt NaN _ = False"
| "float_lt _ NaN = False"
| "float_lt PInf _ = False"
| "float_lt _ NInf = False"
| "float_lt (Finite a) (Finite b) = (a < b)"
| "float_lt NInf _ = True"
| "float_lt _ PInf = True"

definition float_eq :: "pyfloat \<Rightarrow> pyfloat \<Rightarrow> bool" where
  "float_eq a b = (a \<noteq> NaN \<and> a = b)"

text \<open>
  The numeric reading of a value, used by \<open>==\<close>: \<open>bool\<close> is a subclass of \<open>int\<close>, and an
  \<open>int\<close> is compared with a \<open>float\<close> by its exact value.
\<close>

fun as_number :: "pyval \<Rightarrow> pyfloat option" where
  "as_number (PBool b) = Some (Finite (if b then 1 else 0))"
| "as_number (PInt i) = Some (Finite (of_int i))"
| "as_number (PFloat f) = Some f"
| "as_number _ = None"

text \<open>Python's \<open>==\<close> and \<open>!=\<close> on scalars.\<close>

definition py_eq :: "pyval \<Rightarrow> pyval \<Rightarrow> bool" where
  "py_eq a b =
     (case (as_number a, as_number b) of
        (Some x, Some y) \<Rightarrow> float_eq x y
      | (None, None) \<Rightarrow> a = b
      | _ \<Rightarrow> False)"

definition py_ne :: "pyval \<Rightarrow> pyval \<Rightarrow> bool" where
  "py_ne a b = (\<not> py_eq a b)"

text \<open>Truth value testing, as \<^verbatim>\<open>if x:\<close> does it.\<close>

fun py_truthy :: "pyval \<Rightarrow> bool" where
  "py_truthy PNone = False"
| "py_truthy (PBool b) = b"
| "py_truthy (PInt i) = (i \<noteq> 0)"
| "py_truthy (PFloat f) = (f \<noteq> Finite 0)"
| "py_truthy (PStr s) = (s \<noteq> [])"

section \<open>Exceptions\<close>

text \<open>
  An exception is a class and a message. The classes are the ones the tracker can meet; only
  \<open>ValueError\<close> is told apart from the others by the handlers of \<^verbatim>\<open>add_expense\<close>. A message
  is text written in the source, text produced by the Python library (not modelled), or a prefix
  from an f-string in front of \<^verbatim>\<open>str(e)\<close>.
\<close>

datatype exc_class = ValueError | TypeError | OverflowError | KeyError | Exception

datatype message = LibraryText | Text string | Prefixed string message

datatype exn = Exn exc_class message

fun exn_class :: "exn \<Rightarrow> exc_class" where
  "exn_class (Exn c m) = c"

fun exn_str :: "exn \<Rightarrow> message" where
  "exn_str (Exn c m) = m"

section \<open>Floating-point arithmetic\<close>

text \<open>
  Rounding of an exact rational to binary64, to nearest with ties to even: 53 significant bits,
  exponents from \<open>-1022\<close> to \<open>1023\<close>, gradual underflow, overflow to infinity.
\<close>

function bitlen :: "int \<Rightarrow> int" where
  "bitlen n = (if n \<le> 0 then 0 else 1 + bitlen (n div 2))"
  by pat_completeness auto
termination
  by (relation "measure nat") auto

declare bitlen.simps [simp del]

definition pow2 :: "int \<Rightarrow> rat" where
  "pow2 k = (if 0 \<le> k then 2 ^ nat k else 1 / 2 ^ nat (- k))"

definition pow10 :: "int \<Rightarrow> rat" where
  "pow10 k = (if 0 \<le> k then 10 ^ nat k else 1 / 10 ^ nat (- k))"

text \<open>For positive \<open>x\<close>, the exponent \<open>e\<close> with \<open>2 ^ e \<le> x < 2 ^ (e + 1)\<close>.\<close>

definition floor_log2 :: "rat \<Rightarrow> int" where
  "floor_log2 x =
     (if 1 \<le> x then bitlen \<lfloor>x\<rfloor> - 1
      else let j = bitlen \<lfloor>1 / x\<rfloor> - 1
           in if x = pow2 (- j) then - j else - j - 1)"

definition round_half_even :: "rat \<Rightarrow> int" where
  "round_half_even y =
     (let f = \<lfloor>y\<rfloor>; r = y - of_int f
      in if r < 1 / 2 then f
         else if 1 / 2 < r then f + 1
         else if even f then f else f + 1)"

definition round_double :: "rat \<Rightarrow> pyfloat" where
  "round_double x =
     (if x = 0 then Finite 0
      else
        let a = \<bar>x\<bar>;
            e = max (floor_log2 a) (- 1022);
            ulp = pow2 (e - 52);
            n = round_half_even (a / ulp)
        in if 1024 \<le> e \<or> (e = 1023 \<and> n = 9007199254740992)
           then (if x < 0 then NInf else PInf)
           else Finite (if x < 0 then - (of_int n * ulp) else of_int n * ulp))"

text \<open>Addition of two floats.\<close>

fun float_add :: "pyfloat \<Rightarrow> pyfloat \<Rightarrow> pyfloat" where
  "float_add NaN _ = NaN"
| "float_add _ NaN = NaN"
| "float_add PInf NInf = NaN"
| "float_add NInf PInf = NaN"
| "float_add PInf _ = PInf"
| "float_add _ PInf = PInf"
| "float_add NInf _ = NInf"
| "float_add _ NInf = NInf"
| "float_add (Finite a) (Finite b) = round_double (a + b)"

text \<open>
  Conversion of an \<open>int\<close> to a \<open>float\<close>: rounded to nearest, \<open>OverflowError\<close> when the
  result would not be finite.
\<close>

definition int_to_float :: "int \<Rightarrow> exn + pyfloat" where
  "int_to_float i =
     (case round_double (of_int i) of
        Finite r \<Rightarrow> Inr (Finite r)
      | _ \<Rightarrow> Inl (Exn OverflowError LibraryText))"

section \<open>The built-in \<open>float()\<close>\<close>

text \<open>
  Characters are 8-bit; digits, letters and white space beyond ASCII are not modelled.
  The accepted strings are those of the language reference:
  \<^verbatim>\<open>[sign] (number [exponent] | "inf" | "infinity" | "nan")\<close> between optional white space,
  with \<^verbatim>\<open>number ::= [digitpart] "." digitpart | digitpart ["."]\<close> and
  \<^verbatim>\<open>digitpart ::= digit (["_"] digit)*\<close>.
\<close>

definition digit_val :: "char \<Rightarrow> nat option" where
  "digit_val c =
     (let n = (of_char c :: nat) in if 48 \<le> n \<and> n \<le> 57 then Some (n - 48) else None)"

definition is_space :: "char \<Rightarrow> bool" where
  "is_space c =
     (let n = (of_char c :: nat) in (9 \<le> n \<and> n \<le> 13) \<or> (28 \<le> n \<and> n \<le> 32))"

definition lower_ascii :: "char \<Rightarrow> char" where
  "lower_ascii c =
     (let n = (of_char c :: nat) in if 65 \<le> n \<and> n \<le> 90 then char_of (n + 32) else c)"

definition strip :: "string \<Rightarrow> string" where
  "strip s = rev (dropWhile is_space (rev (dropWhile is_space s)))"

fun digitpart_rest :: "string \<Rightarrow> nat list \<times> string" where
  "digitpart_rest [] = ([], [])"
| "digitpart_rest (c # cs) =
     (case digit_val c of
        Some d \<Rightarrow> (case digitpart_rest cs of (ds, r) \<Rightarrow> (d # ds, r))
      | None \<Rightarrow>
          (if c = CHR ''_'' then
             (case cs of
                [] \<Rightarrow> ([], c # cs)
              | c' # cs' \<Rightarrow>
                  (case digit_val c' of
                     Some d \<Rightarrow> (case digitpart_rest cs' of (ds, r) \<Rightarrow> (d # ds, r))
                   | None \<Rightarrow> ([], c # cs)))
           else ([], c # cs)))"

definition digitpart :: "string \<Rightarrow> (nat list \<times> string) option" where
  "digitpart s =
     (case s of
        [] \<Rightarrow> None
      | c # cs \<Rightarrow>
          (case digit_val c of
             None \<Rightarrow> None
           | Some d \<Rightarrow> (case digitpart_rest cs of (ds, r) \<Rightarrow> Some (d # ds, r))))"

definition digits_value :: "nat list \<Rightarrow> int" where
  "digits_value ds = foldl (\<lambda>a d. 10 * a + int d) 0 ds"

definition decimal_value :: "nat list \<Rightarrow> nat list \<Rightarrow> rat" where
  "decimal_value ip fp = of_int (digits_value (ip @ fp)) / 10 ^ length fp"

definition parse_number :: "string \<Rightarrow> (rat \<times> string) option" where
  "parse_number s =
     (case digitpart s of
        Some (ip, r) \<Rightarrow>
          (case r of
             [] \<Rightarrow> Some (decimal_value ip [], r)
           | c # r' \<Rightarrow>
               (if c = CHR ''.'' then
                  (case digitpart r' of
                     Some (fp, r'') \<Rightarrow> Some (decimal_value ip fp, r'')
                   | None \<Rightarrow> Some (decimal_value ip [], r'))
                else Some (decimal_value ip [], r)))
      | None \<Rightarrow>
          (case s of
             [] \<Rightarrow> None
           | c # r' \<Rightarrow>
               (if c = CHR ''.'' then
                  (case digitpart r' of
                     Some (fp, r'') \<Rightarrow> Some (decimal_value [] fp, r'')
                   | None \<Rightarrow> None)
                else None)))"

definition split_sign :: "string \<Rightarrow> bool \<times> string" where
  "split_sign t =
     (case t of
        [] \<Rightarrow> (False, [])
      | c # r \<Rightarrow>
          (if c = CHR ''-'' then (True, r) else if c = CHR ''+'' then (False, r) else (False, t)))"

definition parse_exponent :: "string \<Rightarrow> int option" where
  "parse_exponent s =
     (case s of
        [] \<Rightarrow> Some 0
      | c # r \<Rightarrow>
          (if c = CHR ''e'' \<or> c = CHR ''E'' then
             (case split_sign r of
                (neg, r') \<Rightarrow>
                  (case digitpart r' of
                     Some (ds, rest) \<Rightarrow>
                       (if rest = [] then
                          Some (if neg then - digits_value ds else digits_value ds)
                        else None)
                   | None \<Rightarrow> None))
           else None))"

definition float_of_string :: "string \<Rightarrow> pyfloat option" where
  "float_of_string s =
     (case split_sign (strip s) of
        (neg, u) \<Rightarrow>
          (let w = map lower_ascii u in
           if w = ''inf'' \<or> w = ''infinity'' then Some (if neg then NInf else PInf)
           else if w = ''nan'' then Some NaN
           else
             (case parse_number u of
                None \<Rightarrow> None
              | Some (m, r) \<Rightarrow>
                  (case parse_exponent r of
                     None \<Rightarrow> None
                   | Some e \<Rightarrow> Some (round_double ((if neg then - m else m) * pow10 e))))))"

text \<open>
  \<^verbatim>\<open>float(x)\<close>: a float is returned as it is, an \<open>int\<close> or \<open>bool\<close> is converted, a string is
  parsed (\<open>ValueError\<close> when it is not a number), \<open>None\<close> is a \<open>TypeError\<close>.
\<close>

fun py_float :: "pyval \<Rightarrow> exn + pyfloat" where
  "py_float (PFloat f) = Inr f"
| "py_float (PInt i) = int_to_float i"
| "py_float (PBool b) = Inr (Finite (if b then 1 else 0))"
| "py_float (PStr s) =
     (case float_of_string s of
        None \<Rightarrow> Inl (Exn ValueError LibraryText)
      | Some f \<Rightarrow> Inr f)"
| "py_float PNone = Inl (Exn TypeError LibraryText)"

section \<open>Data model\<close>

text \<open>
  \<^verbatim>\<open>datetime.date\<close>: year, month and day. Python only ever constructs dates that satisfy
  \<open>valid_date\<close> below; the constructor raises \<open>ValueError\<close> otherwise.
\<close>

record pydate =
  year :: nat
  month :: nat
  day :: nat

definition is_leap :: "nat \<Rightarrow> bool" where
  "is_leap y = (y mod 4 = 0 \<and> (y mod 100 \<noteq> 0 \<or> y mod 400 = 0))"

definition days_in_month :: "nat \<Rightarrow> nat \<Rightarrow> nat" where
  "days_in_month y m =
     (if m = 2 then (if is_leap y then 29 else 28)
      else if m = 4 \<or> m = 6 \<or> m = 9 \<or> m = 11 then 30 else 31)"

definition valid_date :: "pydate \<Rightarrow> bool" where
  "valid_date d =
     (1 \<le> year d \<and> year d \<le> 9999 \<and> 1 \<le> month d \<and> month d \<le> 12 \<and>
      1 \<le> day d \<and> day d \<le> days_in_month (year d) (month d))"

text \<open>
  \<^verbatim>\<open>date.strftime("%Y-%m-%d")\<close>: the year on four digits, month and day on two, zero-padded,
  as the library documents \<^verbatim>\<open>%Y\<close>, \<^verbatim>\<open>%m\<close> and \<^verbatim>\<open>%d\<close>. (Some C libraries do not pad
  years below 1000; that platform behaviour is not modelled.)
\<close>

definition digit_char :: "nat \<Rightarrow> char" where
  "digit_char n = char_of (48 + n mod 10)"

definition pad2 :: "nat \<Rightarrow> string" where
  "pad2 n = [digit_char (n div 10), digit_char n]"

definition pad4 :: "nat \<Rightarrow> string" where
  "pad4 n = [digit_char (n div 1000), digit_char (n div 100), digit_char (n div 10), digit_char n]"

definition strftime_ymd :: "pydate \<Rightarrow> string" where
  "strftime_ymd d = pad4 (year d) @ ''-'' @ pad2 (month d) @ ''-'' @ pad2 (day d)"

text \<open>
  \<^verbatim>\<open>datetime.strptime(s, "%Y-%m-%d").date()\<close>. The library turns the format into the regular
  expression \<^verbatim>\<open>(\d\d\d\d)-(1[0-2]|0[1-9]|[1-9])-(3[0-1]|[1-2]\d|0[1-9]|[1-9]| [1-9])\<close>,
  matches it at the start of the string, raises \<open>ValueError\<close> when there is no match or when
  text remains after the match, and raises \<open>ValueError\<close> when the three numbers are not a date.
  Each piece of the expression is a function from the input to the list of its matches
  (value and remaining input) in the order the matcher tries them.
\<close>

definition in_range :: "nat \<Rightarrow> nat \<Rightarrow> char \<Rightarrow> bool" where
  "in_range lo hi c = (case digit_val c of Some d \<Rightarrow> lo \<le> d \<and> d \<le> hi | None \<Rightarrow> False)"

definition the_digit :: "char \<Rightarrow> nat" where
  "the_digit c = (case digit_val c of Some d \<Rightarrow> d | None \<Rightarrow> 0)"

definition two_digits :: "nat \<Rightarrow> nat \<Rightarrow> nat \<Rightarrow> nat \<Rightarrow> string \<Rightarrow> (nat \<times> string) list" where
  "two_digits lo1 hi1 lo2 hi2 s =
     (case s of
        a # b # r \<Rightarrow>
          (if in_range lo1 hi1 a \<and> in_range lo2 hi2 b
           then [(10 * the_digit a + the_digit b, r)] else [])
      | _ \<Rightarrow> [])"

definition one_digit :: "nat \<Rightarrow> nat \<Rightarrow> string \<Rightarrow> (nat \<times> string) list" where
  "one_digit lo hi s =
     (case s of a # r \<Rightarrow> (if in_range lo hi a then [(the_digit a, r)] else []) | [] \<Rightarrow> [])"

definition re_Y :: "string \<Rightarrow> (nat \<times> string) list" where
  "re_Y s =
     (case s of
        a # b # c # d # r \<Rightarrow>
          (if in_range 0 9 a \<and> in_range 0 9 b \<and> in_range 0 9 c \<and> in_range 0 9 d
           then [(1000 * the_digit a + 100 * the_digit b + 10 * the_digit c + the_digit d, r)]
           else [])
      | _ \<Rightarrow> [])"

definition re_m :: "string \<Rightarrow> (nat \<times> string) list" where
  "re_m s = two_digits 1 1 0 2 s @ two_digits 0 0 1 9 s @ one_digit 1 9 s"

definition re_d :: "string \<Rightarrow> (nat \<times> string) list" where
  "re_d s =
     two_digits 3 3 0 1 s @ two_digits 1 2 0 9 s @ two_digits 0 0 1 9 s @ one_digit 1 9 s @
     (case s of [] \<Rightarrow> [] | c # r \<Rightarrow> (if c = CHR '' '' then one_digit 1 9 r else []))"

definition re_dash :: "string \<Rightarrow> string list" where
  "re_dash s = (case s of [] \<Rightarrow> [] | c # r \<Rightarrow> (if c = CHR ''-'' then [r] else []))"

definition re_match :: "string \<Rightarrow> (nat \<times> nat \<times> nat \<times> string) list" where
  "re_match s =
     concat (map (\<lambda>(y, r0).
       concat (map (\<lambda>r1.
         concat (map (\<lambda>(m, r2).
           concat (map (\<lambda>r3.
             map (\<lambda>(d, r4). (y, m, d, r4)) (re_d r3))
           (re_dash r2)))
         (re_m r1)))
       (re_dash r0)))
     (re_Y s))"

definition strptime_ymd :: "string \<Rightarrow> exn + pydate" where
  "strptime_ymd s =
     (case re_match s of
        [] \<Rightarrow> Inl (Exn ValueError LibraryText)
      | (y, m, d, rest) # _ \<Rightarrow>
          (if rest \<noteq> [] then Inl (Exn ValueError LibraryText)
           else if valid_date \<lparr>year = y, month = m, day = d\<rparr>
           then Inr \<lparr>year = y, month = m, day = d\<rparr>
           else Inl (Exn ValueError LibraryText)))"

text \<open>\<^verbatim>\<open>class Expense\<close>: four attributes, stored as given.\<close>

record expense =
  amount :: pyval
  category :: pyval
  date :: pydate
  description :: pyval

text \<open>\<^verbatim>\<open>class ExpenseTracker\<close>: the attributes set by \<^verbatim>\<open>__init__\<close>.\<close>

record tracker =
  expenses :: "expense list"
  filename :: string
  categories :: "string list"

definition default_categories :: "string list" where
  "default_categories =
     [''Food'', ''Transportation'', ''Entertainment'', ''Utilities'',
      ''Rent/Mortgage'', ''Healthcare'', ''Education'', ''Shopping'', ''Other'']"

section \<open>Queries\<close>

text \<open>
  \<^verbatim>\<open>view_expenses(self, filter_category=None, filter_month=None, filter_year=None)\<close>.
  An omitted argument is \<open>PNone\<close>. The method assigns to no attribute of \<open>self\<close>; the model
  returns the tracker after the call beside the result to make that visible.
\<close>

definition view_expenses ::
  "tracker \<Rightarrow> pyval \<Rightarrow> pyval \<Rightarrow> pyval \<Rightarrow> expense list \<times> tracker" where
  "view_expenses self filter_category filter_month filter_year =
     (let filtered0 = expenses self;
          filtered1 =
            (if py_truthy filter_category \<and> py_ne filter_category (PStr ''All'')
             then filter (\<lambda>e. py_eq (category e) filter_category) filtered0
             else filtered0);
          filtered2 =
            (if py_truthy filter_month
             then filter (\<lambda>e. py_eq (PInt (int (month (date e)))) filter_month) filtered1
             else filtered1);
          filtered3 =
            (if py_truthy filter_year
             then filter (\<lambda>e. py_eq (PInt (int (year (date e)))) filter_year) filtered2
             else filtered2)
      in (filtered3, self))"

text \<open>
  The selection the specification describes for \<open>query\<close>: a dimension is unconstrained when its
  filter is absent (\<open>None\<close>, or the sentinel \<^verbatim>\<open>"All"\<close> for the category), and constrained to
  equality otherwise.
\<close>

definition spec_matches :: "pyval \<Rightarrow> pyval \<Rightarrow> pyval \<Rightarrow> expense \<Rightarrow> bool" where
  "spec_matches c m y e =
     (((c = PNone \<or> c = PStr ''All'') \<or> py_eq (category e) c) \<and>
      (m = PNone \<or> py_eq (PInt (int (month (date e)))) m) \<and>
      (y = PNone \<or> py_eq (PInt (int (year (date e)))) y))"

text \<open>
  The selection the code makes: a filter constrains only when it is truthy (and, for the
  category, different from \<^verbatim>\<open>"All"\<close>), so \<open>None\<close>, the empty string and zero all mean
  "no constraint".
\<close>

definition code_matches :: "pyval \<Rightarrow> pyval \<Rightarrow> pyval \<Rightarrow> expense \<Rightarrow> bool" where
  "code_matches c m y e =
     ((\<not> (py_truthy c \<and> py_ne c (PStr ''All'')) \<or> py_eq (category e) c) \<and>
      (\<not> py_truthy m \<or> py_eq (PInt (int (month (date e)))) m) \<and>
      (\<not> py_truthy y \<or> py_eq (PInt (int (year (date e)))) y))"

section \<open>Persistence\<close>

text \<open>
  The JSON file is kept as the document it holds rather than as text: \<^verbatim>\<open>json.dump\<close> followed
  by \<^verbatim>\<open>json.load\<close> gives back an equal document for the scalars of this model, and the model
  takes that from the library. A file that exists holds either a list of objects with scalar
  fields (\<open>Document\<close>), or anything else (\<open>Unloadable\<close>): text that is not JSON, JSON that is
  not a list of objects, or a file that cannot be read; in each of these cases the body of
  \<^verbatim>\<open>load_expenses\<close> raises. An object is the list of its keys and values.
\<close>

type_synonym json_object = "(string \<times> pyval) list"

datatype content = Unloadable | Document "json_object list"

text \<open>
  The file system: the files that exist, and whether opening a path for writing and writing
  to it succeeds. A write that fails leaves the file as it was (a partial write is not modelled).
\<close>

record filesystem =
  files :: "string \<Rightarrow> content option"
  writable :: "string \<Rightarrow> bool"

text \<open>\<^verbatim>\<open>Expense.to_dict\<close>.\<close>

definition to_dict :: "expense \<Rightarrow> json_object" where
  "to_dict self =
     [(''amount'', amount self),
      (''category'', category self),
      (''date'', PStr (strftime_ymd (date self))),
      (''description'', description self)]"

text \<open>
  \<^verbatim>\<open>Expense.from_dict\<close>: \<^verbatim>\<open>data["date"]\<close> is read and parsed first, then \<^verbatim>\<open>data["amount"]\<close>
  and \<^verbatim>\<open>data["category"]\<close>; a missing key is a \<open>KeyError\<close>, a date that is not a string a
  \<open>TypeError\<close>; \<^verbatim>\<open>data.get("description", "")\<close> defaults to the empty string.
\<close>

definition from_dict :: "json_object \<Rightarrow> exn + expense" where
  "from_dict data =
     (case map_of data ''date'' of
        None \<Rightarrow> Inl (Exn KeyError LibraryText)
      | Some (PStr s) \<Rightarrow>
          (case strptime_ymd s of
             Inl e \<Rightarrow> Inl e
           | Inr d \<Rightarrow>
               (case map_of data ''amount'' of
                  None \<Rightarrow> Inl (Exn KeyError LibraryText)
                | Some a \<Rightarrow>
                    (case map_of data ''category'' of
                       None \<Rightarrow> Inl (Exn KeyError LibraryText)
                     | Some c \<Rightarrow>
                         Inr \<lparr>amount = a, category = c, date = d,
                              description =
                                (case map_of data ''description'' of
                                   None \<Rightarrow> PStr []
                                 | Some v \<Rightarrow> v)\<rparr>)))
      | Some _ \<Rightarrow> Inl (Exn TypeError LibraryText))"

text \<open>A list comprehension over a function that may raise: the first exception ends it.\<close>

fun map_result :: "('a \<Rightarrow> exn + 'b) \<Rightarrow> 'a list \<Rightarrow> exn + 'b list" where
  "map_result f [] = Inr []"
| "map_result f (x # xs) =
     (case f x of
        Inl e \<Rightarrow> Inl e
      | Inr y \<Rightarrow> (case map_result f xs of Inl e \<Rightarrow> Inl e | Inr ys \<Rightarrow> Inr (y # ys)))"

text \<open>
  \<^verbatim>\<open>save_expenses\<close>: the whole ledger is written over the file; any exception is raised again
  as a plain \<open>Exception\<close>.
\<close>

definition save_expenses :: "tracker \<Rightarrow> filesystem \<Rightarrow> exn + filesystem" where
  "save_expenses self fs =
     (if writable fs (filename self)
      then Inr (fs\<lparr>files := (files fs)(filename self \<mapsto> Document (map to_dict (expenses self)))\<rparr>)
      else Inl (Exn Exception (Prefixed ''Error saving expenses: '' LibraryText)))"

text \<open>
  \<^verbatim>\<open>load_expenses\<close>: nothing happens when the file does not exist; otherwise \<^verbatim>\<open>self.expenses\<close>
  is replaced by the records of the file, and any exception is raised again as a plain
  \<open>Exception\<close>, \<^verbatim>\<open>self.expenses\<close> being left as it was.
\<close>

definition load_expenses :: "tracker \<Rightarrow> filesystem \<Rightarrow> exn + tracker" where
  "load_expenses self fs =
     (case files fs (filename self) of
        None \<Rightarrow> Inr self
      | Some Unloadable \<Rightarrow> Inl (Exn Exception (Prefixed ''Error loading expenses: '' LibraryText))
      | Some (Document data) \<Rightarrow>
          (case map_result from_dict data of
             Inl e \<Rightarrow> Inl (Exn Exception (Prefixed ''Error loading expenses: '' (exn_str e)))
           | Inr es \<Rightarrow> Inr (self\<lparr>expenses := es\<rparr>)))"

text \<open>\<^verbatim>\<open>ExpenseTracker.__init__\<close>: the attributes are set, then the file is loaded.\<close>

definition tracker_init :: "string \<Rightarrow> filesystem \<Rightarrow> exn + tracker" where
  "tracker_init fname fs =
     load_expenses \<lparr>expenses = [], filename = fname, categories = default_categories\<rparr> fs"

section \<open>Adding an expense\<close>

text \<open>
  The date argument of \<^verbatim>\<open>add_expense\<close> is text or a \<^verbatim>\<open>datetime.date\<close>; the amount, the
  category and the description are any scalar. A call returns a Python object: a scalar or
  an \<open>Expense\<close>.
\<close>

datatype date_arg = DateText string | DateObj pydate

datatype pyobj = PVal pyval | PExpense expense

text \<open>\<^verbatim>\<open>category not in self.categories\<close>, the list holding strings.\<close>

definition py_in :: "pyval \<Rightarrow> string list \<Rightarrow> bool" where
  "py_in v xs = list_ex (\<lambda>x. py_eq (PStr x) v) xs"

text \<open>
  The body of the \<^verbatim>\<open>try\<close> block of \<^verbatim>\<open>add_expense\<close>, returning the exception or the result
  together with the tracker and the file system as they are when the block is left.
\<close>

definition add_expense_body ::
  "tracker \<Rightarrow> filesystem \<Rightarrow> pyval \<Rightarrow> pyval \<Rightarrow> date_arg \<Rightarrow> pyval \<Rightarrow>
   (exn + pyobj) \<times> tracker \<times> filesystem" where
  "add_expense_body self fs amount0 category0 date0 description0 =
     (case py_float amount0 of
        Inl e \<Rightarrow> (Inl e, self, fs)
      | Inr a \<Rightarrow>
          (if float_le a (Finite 0)
           then (Inl (Exn ValueError (Text ''Expense amount must be positive'')), self, fs)
           else if \<not> py_in category0 (categories self)
           then (Inl (Exn ValueError (Text ''Invalid category'')), self, fs)
           else
             (case (case date0 of DateText s \<Rightarrow> strptime_ymd s | DateObj d \<Rightarrow> Inr d) of
                Inl e \<Rightarrow> (Inl e, self, fs)
              | Inr d \<Rightarrow>
                  (let e = \<lparr>amount = PFloat a, category = category0, date = d,
                             description = description0\<rparr>;
                       self' = self\<lparr>expenses := expenses self @ [e]\<rparr>
                   in case save_expenses self' fs of
                        Inl err \<Rightarrow> (Inl err, self', fs)
                      | Inr fs' \<Rightarrow> (Inr (PVal (PBool True)), self', fs')))))"

text \<open>
  \<^verbatim>\<open>add_expense\<close>: a \<open>ValueError\<close> of the body is raised again as a \<open>ValueError\<close> with the
  prefix \<^verbatim>\<open>Invalid input: \<close>, any other exception as a plain \<open>Exception\<close> with the prefix
  \<^verbatim>\<open>Error adding expense: \<close>.
\<close>

definition add_expense ::
  "tracker \<Rightarrow> filesystem \<Rightarrow> pyval \<Rightarrow> pyval \<Rightarrow> date_arg \<Rightarrow> pyval \<Rightarrow>
   (exn + pyobj) \<times> tracker \<times> filesystem" where
  "add_expense self fs amount0 category0 date0 description0 =
     (case add_expense_body self fs amount0 category0 date0 description0 of
        (Inl e, self', fs') \<Rightarrow>
          (if exn_class e = ValueError
           then (Inl (Exn ValueError (Prefixed ''Invalid input: '' (exn_str e))), self', fs')
           else (Inl (Exn Exception (Prefixed ''Error adding expense: '' (exn_str e))), self', fs'))
      | (Inr r, self', fs') \<Rightarrow> (Inr r, self', fs'))"

section \<open>Monthly summary\<close>

text \<open>
  The operator \<open>+\<close> on scalars: \<open>int\<close> addition when both operands are \<open>int\<close> or \<open>bool\<close>,
  float addition when one of two numbers is a float (the other converted), concatenation of
  two strings, \<open>TypeError\<close> otherwise.
\<close>

fun as_int :: "pyval \<Rightarrow> int option" where
  "as_int (PBool b) = Some (if b then 1 else 0)"
| "as_int (PInt i) = Some i"
| "as_int _ = None"

fun float_operand :: "pyval \<Rightarrow> (exn + pyfloat) option" where
  "float_operand (PFloat f) = Some (Inr f)"
| "float_operand (PInt i) = Some (int_to_float i)"
| "float_operand (PBool b) = Some (Inr (Finite (if b then 1 else 0)))"
| "float_operand _ = None"

definition py_add :: "pyval \<Rightarrow> pyval \<Rightarrow> exn + pyval" where
  "py_add a b =
     (case (a, b) of
        (PStr x, PStr y) \<Rightarrow> Inr (PStr (x @ y))
      | _ \<Rightarrow>
          (case (as_int a, as_int b) of
             (Some i, Some j) \<Rightarrow> Inr (PInt (i + j))
           | _ \<Rightarrow>
               (case (float_operand a, float_operand b) of
                  (Some (Inl e), Some _) \<Rightarrow> Inl e
                | (Some (Inr x), Some (Inl e)) \<Rightarrow> Inl e
                | (Some (Inr x), Some (Inr y)) \<Rightarrow> Inr (PFloat (float_add x y))
                | _ \<Rightarrow> Inl (Exn TypeError LibraryText))))"

text \<open>
  The built-in \<^verbatim>\<open>sum\<close>: the items are added from left to right, starting from the \<open>int\<close>
  zero. (CPython 3.12 and later compensate the rounding errors of a float sum; the plain
  left-to-right sum of the earlier versions is modelled.)
\<close>

fun py_sum_from :: "pyval \<Rightarrow> pyval list \<Rightarrow> exn + pyval" where
  "py_sum_from acc [] = Inr acc"
| "py_sum_from acc (x # xs) =
     (case py_add acc x of Inl e \<Rightarrow> Inl e | Inr acc' \<Rightarrow> py_sum_from acc' xs)"

definition py_sum :: "pyval list \<Rightarrow> exn + pyval" where
  "py_sum xs = py_sum_from (PInt 0) xs"

text \<open>
  A \<open>dict\<close> with scalar keys, in insertion order. Two keys are the same key when they are the
  same object or compare equal; the first key inserted is the one kept.
\<close>

type_synonym pydict = "(pyval \<times> pyval) list"

definition key_eq :: "pyval \<Rightarrow> pyval \<Rightarrow> bool" where
  "key_eq a b = (a = b \<or> py_eq a b)"

fun dict_get :: "pydict \<Rightarrow> pyval \<Rightarrow> pyval option" where
  "dict_get [] k = None"
| "dict_get ((k', v) # d) k = (if key_eq k' k then Some v else dict_get d k)"

fun dict_set :: "pydict \<Rightarrow> pyval \<Rightarrow> pyval \<Rightarrow> pydict" where
  "dict_set [] k v = [(k, v)]"
| "dict_set ((k', v') # d) k v =
     (if key_eq k' k then (k', v) # d else (k', v') # dict_set d k v)"

text \<open>
  The loop \<^verbatim>\<open>by_category[expense.category] += expense.amount\<close> over a
  \<^verbatim>\<open>defaultdict(float)\<close>, whose missing entries read as \<open>0.0\<close>.
\<close>

fun accumulate :: "pydict \<Rightarrow> expense list \<Rightarrow> exn + pydict" where
  "accumulate by_cat [] = Inr by_cat"
| "accumulate by_cat (e # es) =
     (case py_add (case dict_get by_cat (category e) of None \<Rightarrow> PFloat (Finite 0) | Some v \<Rightarrow> v)
                  (amount e) of
        Inl err \<Rightarrow> Inl err
      | Inr v \<Rightarrow> accumulate (dict_set by_cat (category e) v) es)"

record summary =
  total :: pyval
  by_category :: pydict
  count :: nat

text \<open>
  \<^verbatim>\<open>monthly_summary(self, month=None, year=None)\<close>; \<open>now\<close> is the date the clock gives. The
  method has no exception handler and assigns to no attribute of \<open>self\<close>.
\<close>

definition monthly_expenses :: "tracker \<Rightarrow> pydate \<Rightarrow> pyval \<Rightarrow> pyval \<Rightarrow> expense list" where
  "monthly_expenses self now month0 year0 =
     (let month1 = (if \<not> py_truthy month0 then PInt (int (month now)) else month0);
          year1 = (if \<not> py_truthy year0 then PInt (int (year now)) else year0)
      in filter (\<lambda>e. py_eq (PInt (int (month (date e)))) month1 \<and>
                      py_eq (PInt (int (year (date e)))) year1) (expenses self))"

definition monthly_summary ::
  "tracker \<Rightarrow> pydate \<Rightarrow> pyval \<Rightarrow> pyval \<Rightarrow> (exn + summary) \<times> tracker" where
  "monthly_summary self now month0 year0 =
     (let selected = monthly_expenses self now month0 year0
      in case py_sum (map amount selected) of
           Inl e \<Rightarrow> (Inl e, self)
         | Inr t \<Rightarrow>
             (case accumulate [] selected of
                Inl e \<Rightarrow> (Inl e, self)
              | Inr by_cat \<Rightarrow>
                  (Inr \<lparr>total = t, by_category = by_cat, count = length selected\<rparr>, self)))"

text \<open>The ledger of the specification's concrete scenario (section 8).\<close>

definition lunch :: expense where
  "lunch = \<lparr>amount = PFloat (Finite 50), category = PStr ''Food'',
            date = \<lparr>year = 2024, month = 3, day = 5\<rparr>, description = PStr ''lunch''\<rparr>"

definition snack :: expense where
  "snack = \<lparr>amount = PFloat (Finite 20), category = PStr ''Food'',
            date = \<lparr>year = 2024, month = 3, day = 10\<rparr>, description = PStr ''''\<rparr>"

definition rent :: expense where
  "rent = \<lparr>amount = PFloat (Finite 100), category = PStr ''Rent/Mortgage'',
           date = \<lparr>year = 2024, month = 3, day = 1\<rparr>, description = PStr ''''\<rparr>"

definition scenario :: tracker where
  "scenario = \<lparr>expenses = [lunch, snack, rent], filename = ''expenses.json'',
               categories = default_categories\<rparr>"





text \<open>Two file systems without files: one accepts every write, one refuses every write.\<close>

definition blank_fs :: filesystem where
  "blank_fs = \<lparr>files = (\<lambda>p. None), writable = (\<lambda>p. True)\<rparr>"


text \<open>The date a date argument stands for, as \<^verbatim>\<open>add_expense\<close> computes it.\<close>

definition parse_date_arg :: "date_arg \<Rightarrow> exn + pydate" where
  "parse_date_arg d = (case d of DateText s \<Rightarrow> strptime_ymd s | DateObj d' \<Rightarrow> Inr d')"

text \<open>
  A file record that \<^verbatim>\<open>from_dict\<close> accepts: it has the keys \<^verbatim>\<open>amount\<close> and \<^verbatim>\<open>category\<close>, and
  its \<^verbatim>\<open>date\<close> is text that parses.
\<close>

definition loadable :: "json_object \<Rightarrow> bool" where
  "loadable obj =
     ((case map_of obj ''date'' of
         Some (PStr s) \<Rightarrow> (case strptime_ymd s of Inl e \<Rightarrow> False | Inr d \<Rightarrow> True)
       | _ \<Rightarrow> False) \<and>
      map_of obj ''amount'' \<noteq> None \<and> map_of obj ''category'' \<noteq> None)"

text \<open>A file of four records whose amounts are zero, negative, text and \<open>None\<close>.\<close>

definition odd_amounts :: "json_object list" where
  "odd_amounts =
     [[(''amount'', PInt 0), (''category'', PStr ''Food''), (''date'', PStr ''2024-03-05'')],
      [(''amount'', PFloat (Finite (- 5))), (''category'', PStr ''Food''),
       (''date'', PStr ''2024-03-05''), (''description'', PStr ''refund'')],
      [(''amount'', PStr ''abc''), (''category'', PStr ''Food''), (''date'', PStr ''2024-03-05'')],
      [(''amount'', PNone), (''category'', PStr ''Food''), (''date'', PStr ''2024-03-05'')]]"

definition odd_fs :: filesystem where
  "odd_fs = \<lparr>files = (\<lambda>p. if p = ''expenses.json'' then Some (Document odd_amounts) else None),
             writable = (\<lambda>p. True)\<rparr>"



text \<open>A file with one record that has no \<^verbatim>\<open>description\<close>.\<close>

definition terse_fs :: filesystem where
  "terse_fs =
     \<lparr>files = (\<lambda>p. if p = ''expenses.json''
                    then Some (Document [[(''amount'', PFloat (Finite 50)),
                                          (''category'', PStr ''Food''),
                                          (''date'', PStr ''2024-03-05'')]])
                    else None),
      writable = (\<lambda>p. True)\<rparr>"



text \<open>
  The records of a month and year, and the records whose amount is a float and whose
  category is a string, as \<open>add_expense\<close> stores them.
\<close>

definition in_month :: "pyval \<Rightarrow> pyval \<Rightarrow> expense \<Rightarrow> bool" where
  "in_month m y e =
     (py_eq (PInt (int (month (date e)))) m \<and> py_eq (PInt (int (year (date e)))) y)"

definition summable :: "expense \<Rightarrow> bool" where
  "summable e =
     ((case amount e of PFloat f \<Rightarrow> True | _ \<Rightarrow> False) \<and>
      (case category e of PStr c \<Rightarrow> True | _ \<Rightarrow> False))"

definition float_amount :: "expense \<Rightarrow> pyfloat" where
  "float_amount e = (case amount e of PFloat f \<Rightarrow> f | _ \<Rightarrow> NaN)"

text \<open>The float a dictionary holds for a key, zero when the key is absent.\<close>

definition lookup_float :: "pydict \<Rightarrow> pyval \<Rightarrow> pyfloat" where
  "lookup_float d k = (case map_of d k of Some (PFloat a) \<Rightarrow> a | _ \<Rightarrow> Finite 0)"

text \<open>
  Three expenses of March 2024 entered as \<^verbatim>\<open>"0.1"\<close>, \<^verbatim>\<open>"0.1"\<close> and \<^verbatim>\<open>"0.4"\<close>: the amounts
  are the floats nearest to these decimals.
\<close>

definition cents :: tracker where
  "cents =
     \<lparr>expenses =
        [\<lparr>amount = PFloat (Finite (3602879701896397 / 36028797018963968)),
          category = PStr ''Food'', date = \<lparr>year = 2024, month = 3, day = 5\<rparr>,
          description = PStr []\<rparr>,
         \<lparr>amount = PFloat (Finite (3602879701896397 / 36028797018963968)),
          category = PStr ''Other'', date = \<lparr>year = 2024, month = 3, day = 6\<rparr>,
          description = PStr []\<rparr>,
         \<lparr>amount = PFloat (Finite (3602879701896397 / 9007199254740992)),
          category = PStr ''Food'', date = \<lparr>year = 2024, month = 3, day = 7\<rparr>,
          description = PStr []\<rparr>],
      filename = ''expenses.json'', categories = default_categories\<rparr>"

text \<open>A ledger as loaded from a file in which an amount is text.\<close>

definition texty :: tracker where
  "texty =
     \<lparr>expenses =
        [\<lparr>amount = PStr ''abc'', category = PStr ''Food'',
          date = \<lparr>year = 2024, month = 3, day = 5\<rparr>, description = PStr []\<rparr>],
      filename = ''expenses.json'', categories = default_categories\<rparr>"

definition mid_march :: pydate where
  "mid_march = \<lparr>year = 2024, month = 3, day = 15\<rparr>"

section \<open>Properties of the queries\<close>



text \<open>
  Claim C4, as the code has it. \<open>view_expenses\<close> returns, in insertion order, exactly the records
  that satisfy the conjunction of the three constraints, where a filter constrains its dimension
  only when it is truthy (not \<open>None\<close>, not the empty string, not zero) and, for the category, not
  \<^verbatim>\<open>"All"\<close>; the tracker is the same after the call; with all three filters omitted the whole
  ledger is returned in insertion order.
\<close>

theorem view_expenses_filters:
  "view_expenses self c m y = (filter (code_matches c m y) (expenses self), self) \<and>
   view_expenses self PNone PNone PNone = (expenses self, self)"
  by (auto simp: view_expenses_def code_matches_def Let_def intro!: filter_cong)

theorem view_expenses_filters_witness:
  "view_expenses scenario (PStr ''Food'') PNone PNone = ([lunch, snack], scenario) \<and>
   view_expenses scenario PNone (PInt 3) (PInt 2023) = ([], scenario) \<and>
   filter (code_matches (PStr ''Food'') PNone PNone) (expenses scenario) = [lunch, snack]"
  using view_expenses_filters [of scenario "PStr ''Food''" PNone PNone]
    view_expenses_filters [of scenario PNone "PInt 3" "PInt 2023"]
  by (simp add: code_matches_def scenario_def lunch_def snack_def rent_def py_eq_def py_ne_def
      float_eq_def)

text \<open>
  Claim C4 as the specification words it fails: a category filter that is the empty string, or a
  month filter that is zero, is a supplied filter that no record of this ledger equals, yet the
  code treats it as absent and returns every record.
\<close>

theorem view_expenses_falsy_filter_counterexample:
  "fst (view_expenses scenario (PStr '''') PNone PNone) = [lunch, snack, rent] \<and>
   filter (spec_matches (PStr '''') PNone PNone) (expenses scenario) = [] \<and>
   fst (view_expenses scenario PNone (PInt 0) PNone) = [lunch, snack, rent] \<and>
   filter (spec_matches PNone (PInt 0) PNone) (expenses scenario) = []"
  by (simp add: view_expenses_def spec_matches_def scenario_def lunch_def snack_def rent_def
      py_eq_def py_ne_def float_eq_def)



section \<open>Rejected input\<close>






section \<open>Loading\<close>

lemma map_result_Inr:
  "map_result f xs = Inr ys \<Longrightarrow> list_all2 (\<lambda>x y. f x = Inr y) xs ys"
  by (induction xs arbitrary: ys) (auto split: sum.splits)

lemma map_result_all2:
  "list_all2 (\<lambda>x y. f x = Inr y) xs ys \<Longrightarrow> map_result f xs = Inr ys"
  by (induction rule: list_all2_induct) auto

lemma map_Some_eq: "map (\<lambda>e. Some (g e)) es = map Some xs \<Longrightarrow> map g es = xs"
  by (induction es arbitrary: xs) auto

lemma map_result_total:
  "\<forall>x\<in>set xs. \<exists>y. f x = Inr y \<Longrightarrow> \<exists>ys. map_result f xs = Inr ys"
proof (induction xs)
  case Nil
  then show ?case by simp
next
  case (Cons x xs)
  from Cons.prems obtain y where y: "f x = Inr y"
    by auto
  from Cons obtain ys where "map_result f xs = Inr ys"
    by auto
  with y show ?case by simp
qed

lemma from_dict_loadable:
  assumes "loadable obj"
  shows "\<exists>e. from_dict obj = Inr e \<and>
             map_of obj ''amount'' = Some (amount e) \<and>
             map_of obj ''category'' = Some (category e) \<and>
             (case map_of obj ''date'' of Some (PStr s) \<Rightarrow> strptime_ymd s = Inr (date e) | _ \<Rightarrow> False) \<and>
             description e = (case map_of obj ''description'' of None \<Rightarrow> PStr [] | Some v \<Rightarrow> v)"
  using assms
  by (auto simp: loadable_def from_dict_def split: option.splits pyval.splits sum.splits)

lemma from_dict_Inr:
  assumes "from_dict obj = Inr e"
  shows "map_of obj ''amount'' = Some (amount e) \<and>
         map_of obj ''category'' = Some (category e) \<and>
         description e = (case map_of obj ''description'' of None \<Rightarrow> PStr [] | Some v \<Rightarrow> v)"
  using assms
  by (auto simp: from_dict_def split: option.splits pyval.splits sum.splits)

lemma load_document:
  assumes "files fs fname = Some (Document data)" and "\<forall>obj\<in>set data. loadable obj"
  shows "\<exists>es. tracker_init fname fs =
            Inr \<lparr>expenses = es, filename = fname, categories = default_categories\<rparr> \<and>
            list_all2 (\<lambda>obj e. from_dict obj = Inr e) data es"
proof -
  from assms(2) have "\<exists>es. map_result from_dict data = Inr es"
    by (intro map_result_total) (blast dest: from_dict_loadable)
  then obtain es where es: "map_result from_dict data = Inr es" ..
  then have "list_all2 (\<lambda>obj e. from_dict obj = Inr e) data es"
    by (rule map_result_Inr)
  with es assms(1) show ?thesis
    by (simp add: tracker_init_def load_expenses_def)
qed

lemma strptime_sample: "strptime_ymd ''2024-03-05'' = Inr \<lparr>year = 2024, month = 3, day = 5\<rparr>"
  by code_simp

text \<open>
  Claim C10. Whatever the \<^verbatim>\<open>amount\<close> values of the records of the file are, when every record
  has its keys and a date that parses, loading succeeds and the ledger holds one record for
  each record of the file, in order, with the amount of the file unchanged: no condition on the
  amount is checked on this path.
\<close>

theorem load_does_not_validate_amount:
  assumes "files fs fname = Some (Document data)" and "\<forall>obj\<in>set data. loadable obj"
  shows "\<exists>es. tracker_init fname fs =
            Inr \<lparr>expenses = es, filename = fname, categories = default_categories\<rparr> \<and>
            map (\<lambda>e. Some (amount e)) es = map (\<lambda>obj. map_of obj ''amount'') data"
proof -
  from load_document [OF assms] obtain es where
    t: "tracker_init fname fs =
          Inr \<lparr>expenses = es, filename = fname, categories = default_categories\<rparr>" and
    l: "list_all2 (\<lambda>obj e. from_dict obj = Inr e) data es"
    by blast
  from l have "map (\<lambda>e. Some (amount e)) es = map (\<lambda>obj. map_of obj ''amount'') data"
    by (induction rule: list_all2_induct) (auto dest: from_dict_Inr)
  with t show ?thesis by blast
qed

theorem load_does_not_validate_amount_witness:
  "files odd_fs ''expenses.json'' = Some (Document odd_amounts) \<and>
   list_all loadable odd_amounts \<and>
   (\<exists>es. tracker_init ''expenses.json'' odd_fs =
            Inr \<lparr>expenses = es, filename = ''expenses.json'', categories = default_categories\<rparr> \<and>
          map amount es = [PInt 0, PFloat (Finite (- 5)), PStr ''abc'', PNone])"
proof -
  have f: "files odd_fs ''expenses.json'' = Some (Document odd_amounts)"
    by (simp add: odd_fs_def)
  have l: "\<forall>obj\<in>set odd_amounts. loadable obj"
    by (simp add: odd_amounts_def loadable_def strptime_sample)
  from load_does_not_validate_amount [OF f l] obtain es where
    t: "tracker_init ''expenses.json'' odd_fs =
          Inr \<lparr>expenses = es, filename = ''expenses.json'', categories = default_categories\<rparr>" and
    m: "map (\<lambda>e. Some (amount e)) es = map (\<lambda>obj. map_of obj ''amount'') odd_amounts"
    by blast
  from m have "map (\<lambda>e. Some (amount e)) es =
      map Some [PInt 0, PFloat (Finite (- 5)), PStr ''abc'', PNone]"
    by (simp add: odd_amounts_def)
  then have "map amount es = [PInt 0, PFloat (Finite (- 5)), PStr ''abc'', PNone]"
    by (rule map_Some_eq)
  with t have "\<exists>es. tracker_init ''expenses.json'' odd_fs =
            Inr \<lparr>expenses = es, filename = ''expenses.json'', categories = default_categories\<rparr> \<and>
          map amount es = [PInt 0, PFloat (Finite (- 5)), PStr ''abc'', PNone]"
    by (intro exI [of _ es] conjI)
  moreover from l have "list_all loadable odd_amounts"
    by (simp add: list_all_iff)
  ultimately show ?thesis
    using f by (intro conjI)
qed

section \<open>Missing file, missing description\<close>

text \<open>
  Claim C8. When the file does not exist, constructing the tracker succeeds with an empty
  ledger (and \<open>load_expenses\<close> leaves any tracker as it is). When the file holds records with
  their keys and parseable dates, every record without a \<^verbatim>\<open>description\<close> key is loaded with
  the empty string as its description.
\<close>

theorem load_defaults:
  "(files fs fname = None \<longrightarrow>
      tracker_init fname fs =
        Inr \<lparr>expenses = [], filename = fname, categories = default_categories\<rparr> \<and>
      (filename self = fname \<longrightarrow> load_expenses self fs = Inr self)) \<and>
   (files fs fname = Some (Document data) \<and> (\<forall>obj\<in>set data. loadable obj) \<longrightarrow>
      (\<exists>es. tracker_init fname fs =
              Inr \<lparr>expenses = es, filename = fname, categories = default_categories\<rparr> \<and>
            length es = length data \<and>
            (\<forall>i<length data. map_of (data ! i) ''description'' = None \<longrightarrow>
                description (es ! i) = PStr [])))"
proof (intro conjI impI)
  assume "files fs fname = None"
  then show "tracker_init fname fs =
      Inr \<lparr>expenses = [], filename = fname, categories = default_categories\<rparr>"
    by (simp add: tracker_init_def load_expenses_def)
next
  assume "files fs fname = None" "filename self = fname"
  then show "load_expenses self fs = Inr self"
    by (simp add: load_expenses_def)
next
  assume a: "files fs fname = Some (Document data) \<and> (\<forall>obj\<in>set data. loadable obj)"
  then obtain es where
    t: "tracker_init fname fs =
          Inr \<lparr>expenses = es, filename = fname, categories = default_categories\<rparr>" and
    l: "list_all2 (\<lambda>obj e. from_dict obj = Inr e) data es"
    using load_document by blast
  from l have len: "length es = length data"
    by (simp add: list_all2_lengthD)
  have "description (es ! i) = PStr []"
    if "i < length data" "map_of (data ! i) ''description'' = None" for i
  proof -
    have "from_dict (data ! i) = Inr (es ! i)"
      using list_all2_nthD [OF l that(1)] by simp
    with that(2) show ?thesis
      by (auto dest: from_dict_Inr)
  qed
  with t len show "\<exists>es. tracker_init fname fs =
              Inr \<lparr>expenses = es, filename = fname, categories = default_categories\<rparr> \<and>
            length es = length data \<and>
            (\<forall>i<length data. map_of (data ! i) ''description'' = None \<longrightarrow>
                description (es ! i) = PStr [])"
    by (intro exI [of _ es] conjI) auto
qed

theorem load_defaults_witness:
  "files blank_fs ''expenses.json'' = None \<and>
   tracker_init ''expenses.json'' blank_fs =
     Inr \<lparr>expenses = [], filename = ''expenses.json'', categories = default_categories\<rparr> \<and>
   tracker_init ''expenses.json'' terse_fs =
     Inr \<lparr>expenses = [\<lparr>amount = PFloat (Finite 50), category = PStr ''Food'',
                         date = \<lparr>year = 2024, month = 3, day = 5\<rparr>, description = PStr []\<rparr>],
          filename = ''expenses.json'', categories = default_categories\<rparr>"
proof -
  have n: "files blank_fs ''expenses.json'' = None"
    by (simp add: blank_fs_def)
  from load_defaults [of blank_fs "''expenses.json''"] n
  have "tracker_init ''expenses.json'' blank_fs =
     Inr \<lparr>expenses = [], filename = ''expenses.json'', categories = default_categories\<rparr>"
    by blast
  moreover have "tracker_init ''expenses.json'' terse_fs =
     Inr \<lparr>expenses = [\<lparr>amount = PFloat (Finite 50), category = PStr ''Food'',
                         date = \<lparr>year = 2024, month = 3, day = 5\<rparr>, description = PStr []\<rparr>],
          filename = ''expenses.json'', categories = default_categories\<rparr>"
    by (simp add: tracker_init_def load_expenses_def terse_fs_def from_dict_def strptime_sample)
  ultimately show ?thesis
    using n by (intro conjI)
qed

section \<open>Accepted input\<close>

lemma add_expense_accepts:
  assumes "py_float a = Inr f" and "\<not> float_le f (Finite 0)" and "py_in c (categories self)"
    and "parse_date_arg d = Inr dt"
  shows "add_expense self fs a c d descr =
     (let e = \<lparr>amount = PFloat f, category = c, date = dt, description = descr\<rparr>;
          self' = self\<lparr>expenses := expenses self @ [e]\<rparr>
      in if writable fs (filename self)
         then (Inr (PVal (PBool True)), self',
               fs\<lparr>files := (files fs)(filename self \<mapsto> Document (map to_dict (expenses self')))\<rparr>)
         else (Inl (Exn Exception (Prefixed ''Error adding expense: ''
                 (Prefixed ''Error saving expenses: '' LibraryText))), self', fs))"
  using assms
  by (auto simp: add_expense_def add_expense_body_def save_expenses_def parse_date_arg_def Let_def
      split: date_arg.splits)


lemma py_float_nan: "py_float (PStr ''nan'') = Inr NaN"
  by code_simp

lemma food_in_scenario: "py_in (PStr ''Food'') (categories scenario)"
  by (simp add: py_in_def scenario_def default_categories_def py_eq_def)

lemma parse_sample: "parse_date_arg (DateText ''2024-03-05'') = Inr \<lparr>year = 2024, month = 3, day = 5\<rparr>"
  by (simp add: parse_date_arg_def strptime_sample)




lemma add_expense_stored_amount:
  assumes "add_expense self fs a c d descr = (Inr r, self', fs')"
  shows "\<exists>f dt. expenses self' =
            expenses self @ [\<lparr>amount = PFloat f, category = c, date = dt, description = descr\<rparr>] \<and>
          \<not> float_le f (Finite 0)"
proof (cases "py_float a")
  case (Inl e)
  with assms show ?thesis
    by (simp add: add_expense_def add_expense_body_def split: if_splits)
next
  case (Inr f)
  show ?thesis
  proof (cases "float_le f (Finite 0) \<or> \<not> py_in c (categories self)")
    case True
    with assms Inr show ?thesis
      by (auto simp: add_expense_def add_expense_body_def split: if_splits)
  next
    case ok: False
    show ?thesis
    proof (cases "parse_date_arg d")
      case (Inl e)
      with assms Inr ok show ?thesis
        by (auto simp: add_expense_def add_expense_body_def parse_date_arg_def
            split: if_splits date_arg.splits)
    next
      case dt: (Inr dt)
      from ok have "\<not> float_le f (Finite 0)" "py_in c (categories self)"
        by auto
      from add_expense_accepts [OF Inr this dt, of fs descr] assms ok show ?thesis
        by (auto simp: Let_def split: if_splits)
    qed
  qed
qed

text \<open>
  Claim C5 on the failing input. The amount \<^verbatim>\<open>"nan"\<close> converts to NaN; the test
  \<^verbatim>\<open>amount <= 0\<close> is false for NaN, so the record is appended and saved, and its amount is
  not greater than zero.
\<close>

theorem nan_amount_is_stored:
  "fst (add_expense scenario blank_fs (PStr ''nan'') (PStr ''Food'') (DateText ''2024-03-05'')
          (PStr [])) = Inr (PVal (PBool True)) \<and>
   map amount (expenses (fst (snd (add_expense scenario blank_fs (PStr ''nan'') (PStr ''Food'')
          (DateText ''2024-03-05'') (PStr []))))) =
     [PFloat (Finite 50), PFloat (Finite 20), PFloat (Finite 100), PFloat NaN] \<and>
   \<not> float_lt (Finite 0) NaN"
proof -
  have "\<not> float_le NaN (Finite 0)"
    by simp
  from add_expense_accepts [OF py_float_nan this food_in_scenario parse_sample, of blank_fs "PStr []"]
  show ?thesis
    by (simp add: Let_def blank_fs_def scenario_def lunch_def snack_def rent_def)
qed




section \<open>A category outside the list\<close>







section \<open>Dates survive formatting and parsing\<close>


















section \<open>The monthly summary\<close>

lemma py_add_floats: "py_add (PFloat a) (PFloat b) = Inr (PFloat (float_add a b))"
  by (simp add: py_add_def)

lemma py_add_zero_float: "py_add (PInt 0) (PFloat b) = Inr (PFloat (float_add (Finite 0) b))"
  by (simp add: py_add_def int_to_float_def round_double_def)

lemma py_sum_from_floats:
  "py_sum_from (PFloat a) (map (\<lambda>e. PFloat (g e)) es) =
     Inr (PFloat (foldl float_add a (map g es)))"
  by (induction es arbitrary: a) (simp_all add: py_add_floats)

lemma summable_amount: "summable e \<Longrightarrow> amount e = PFloat (float_amount e)"
  by (auto simp: summable_def float_amount_def split: pyval.splits)

lemma summable_category: "summable e \<Longrightarrow> \<exists>s. category e = PStr s"
  by (auto simp: summable_def split: pyval.splits)

lemma summable_amounts:
  "\<forall>e\<in>set es. summable e \<Longrightarrow> map amount es = map (\<lambda>e. PFloat (float_amount e)) es"
  by (induction es) (simp_all add: summable_amount)

lemma py_sum_floats:
  assumes "\<forall>e\<in>set es. summable e"
  shows "py_sum (map amount es) =
     Inr (if es = [] then PInt 0 else PFloat (foldl float_add (Finite 0) (map float_amount es)))"
proof (cases es)
  case Nil
  then show ?thesis
    by (simp add: py_sum_def)
next
  case (Cons e es')
  have "py_sum (map amount es) = py_sum (map (\<lambda>e. PFloat (float_amount e)) es)"
    by (simp only: summable_amounts [OF assms])
  also have "\<dots> = py_sum_from (PFloat (float_add (Finite 0) (float_amount e)))
      (map (\<lambda>e. PFloat (float_amount e)) es')"
    using Cons by (simp add: py_sum_def py_add_zero_float)
  also have "\<dots> = Inr (PFloat (foldl float_add (float_add (Finite 0) (float_amount e))
      (map float_amount es')))"
    by (rule py_sum_from_floats)
  finally show ?thesis
    using Cons by simp
qed

lemma key_eq_PStr: "key_eq k (PStr s) \<longleftrightarrow> k = PStr s"
  by (cases k) (auto simp: key_eq_def py_eq_def)

lemma dict_get_PStr: "dict_get d (PStr s) = map_of d (PStr s)"
  by (induction d) (auto simp: key_eq_PStr)

lemma map_of_dict_set: "map_of (dict_set d (PStr s) v) = (map_of d)(PStr s \<mapsto> v)"
  by (induction d) (auto simp: key_eq_PStr)

lemma keys_dict_set:
  "map fst (dict_set d (PStr s) v) =
     (if PStr s \<in> set (map fst d) then map fst d else map fst d @ [PStr s])"
  by (induction d) (force simp: key_eq_PStr)+

lemma values_dict_set: "snd ` set (dict_set d (PStr s) v) \<subseteq> insert v (snd ` set d)"
proof (induction d)
  case Nil
  then show ?case by simp
next
  case (Cons p d)
  obtain k' v' where p: "p = (k', v')"
    by (cases p)
  from Cons show ?case
    unfolding p by (cases "k' = PStr s") (auto simp: key_eq_PStr)
qed

lemma accumulate_floats:
  assumes "\<forall>e\<in>set es. summable e" and "distinct (map fst d)"
    and "\<forall>v\<in>snd ` set d. \<exists>a. v = PFloat a"
  shows "\<exists>d'. accumulate d es = Inr d' \<and> distinct (map fst d') \<and>
           set (map fst d') = set (map fst d) \<union> category ` set es \<and>
           (\<forall>v\<in>snd ` set d'. \<exists>a. v = PFloat a) \<and>
           (\<forall>s. lookup_float d' (PStr s) =
              foldl float_add (lookup_float d (PStr s))
                (map float_amount (filter (\<lambda>e. category e = PStr s) es)))"
  using assms
proof (induction es arbitrary: d)
  case Nil
  then show ?case by simp
next
  case (Cons e es)
  from Cons.prems(1) have se: "summable e" and ses: "\<forall>e\<in>set es. summable e"
    by simp_all
  from se obtain k where k: "category e = PStr k"
    using summable_category by blast
  from se have f: "amount e = PFloat (float_amount e)"
    by (rule summable_amount)
  let ?cur = "lookup_float d (PStr k)"
  let ?v = "PFloat (float_add ?cur (float_amount e))"
  let ?d1 = "dict_set d (PStr k) ?v"
  have cur: "(case dict_get d (PStr k) of None \<Rightarrow> PFloat (Finite 0) | Some v \<Rightarrow> v) = PFloat ?cur"
  proof (cases "map_of d (PStr k)")
    case None
    then show ?thesis
      by (simp add: dict_get_PStr lookup_float_def)
  next
    case (Some v)
    then have "v \<in> snd ` set d"
      by (metis map_of_SomeD snd_conv image_eqI)
    with Cons.prems(3) obtain a where "v = PFloat a"
      by blast
    with Some show ?thesis
      by (simp add: dict_get_PStr lookup_float_def)
  qed
  have step: "accumulate d (e # es) = accumulate ?d1 es"
    by (simp add: cur k f py_add_floats)
  have d1_distinct: "distinct (map fst ?d1)"
    using Cons.prems(2) by (simp add: keys_dict_set)
  have d1_values: "\<forall>v\<in>snd ` set ?d1. \<exists>a. v = PFloat a"
    using Cons.prems(3) values_dict_set [of d k ?v] by blast
  from Cons.IH [OF ses d1_distinct d1_values] obtain d' where
    acc: "accumulate ?d1 es = Inr d'" and dist: "distinct (map fst d')" and
    keys: "set (map fst d') = set (map fst ?d1) \<union> category ` set es" and
    vals: "\<forall>v\<in>snd ` set d'. \<exists>a. v = PFloat a" and
    look: "\<forall>s. lookup_float d' (PStr s) =
              foldl float_add (lookup_float ?d1 (PStr s))
                (map float_amount (filter (\<lambda>e. category e = PStr s) es))"
    by blast
  have keys': "set (map fst d') = set (map fst d) \<union> category ` set (e # es)"
    using keys k by (auto simp: keys_dict_set split: if_splits)
  have look': "lookup_float d' (PStr s) =
       foldl float_add (lookup_float d (PStr s))
         (map float_amount (filter (\<lambda>e. category e = PStr s) (e # es)))" for s
  proof (cases "s = k")
    case True
    have "lookup_float ?d1 (PStr k) = float_add ?cur (float_amount e)"
      by (simp add: lookup_float_def map_of_dict_set)
    with look True k show ?thesis
      by simp
  next
    case False
    then have "lookup_float ?d1 (PStr s) = lookup_float d (PStr s)"
      by (simp add: lookup_float_def map_of_dict_set)
    with look False k show ?thesis
      by simp
  qed
  from step acc dist keys' vals look' show ?case
    by (intro exI [of _ d']) simp
qed

lemma monthly_expenses_truthy:
  "py_truthy m \<Longrightarrow> py_truthy y \<Longrightarrow>
   monthly_expenses self now m y = filter (in_month m y) (expenses self)"
  by (simp add: monthly_expenses_def in_month_def Let_def cong: filter_cong)


lemma summary_scenario:
  "fst (monthly_summary scenario mid_march (PInt 3) (PInt 2024)) =
     Inr \<lparr>total = PFloat (Finite 170),
          by_category = [(PStr ''Food'', PFloat (Finite 70)),
                         (PStr ''Rent/Mortgage'', PFloat (Finite 100))],
          count = 3\<rparr>"
  by code_simp

lemma summary_month_zero:
  "fst (monthly_summary scenario mid_march (PInt 0) (PInt 2024)) =
     Inr \<lparr>total = PFloat (Finite 170),
          by_category = [(PStr ''Food'', PFloat (Finite 70)),
                         (PStr ''Rent/Mortgage'', PFloat (Finite 100))],
          count = 3\<rparr>"
  by code_simp

lemma summary_cents:
  "fst (monthly_summary cents mid_march (PInt 3) (PInt 2024)) =
     Inr \<lparr>total = PFloat (Finite (5404319552844596 / 9007199254740992)),
          by_category = [(PStr ''Food'', PFloat (Finite (1 / 2))),
                         (PStr ''Other'', PFloat (Finite (3602879701896397 / 36028797018963968)))],
          count = 3\<rparr>"
  by code_simp

lemma sum_cents_values:
  "py_sum [PFloat (Finite (1 / 2)), PFloat (Finite (3602879701896397 / 36028797018963968))] =
     Inr (PFloat (Finite (5404319552844595 / 9007199254740992)))"
  by code_simp

lemma summary_texty:
  "fst (monthly_summary texty mid_march (PInt 3) (PInt 2024)) = Inl (Exn TypeError LibraryText)"
  by code_simp

lemma float_of_cents:
  "py_float (PStr ''0.1'') = Inr (Finite (3602879701896397 / 36028797018963968)) \<and>
   py_float (PStr ''0.4'') = Inr (Finite (3602879701896397 / 9007199254740992))"
  by code_simp

text \<open>
  Claim C3, as the code has it. For a month and a year that are truthy (not zero), when the
  selected records have float amounts and string categories, \<open>monthly_summary\<close> returns:
  as total, what the built-in \<open>sum\<close> gives for the amounts of exactly the records of that
  month and year, the \<open>int\<close> zero when there are none; as count, the number of these
  records; as by-category dictionary, one entry for each category that appears among them
  and no other, whose value is the floating-point sum, taken from left to right from
  \<open>0.0\<close>, of the selected amounts of that category. The tracker is the same after the call.
  (That the values add up to the total is not part of the statement: each sum is rounded on
  its own. Lemma \<open>py_sum_floats\<close> spells the total out as a left-to-right float sum.)
\<close>

theorem monthly_summary_totals:
  assumes "py_truthy m" and "py_truthy y"
    and "\<forall>e\<in>set (filter (in_month m y) (expenses self)). summable e"
  shows "\<exists>r. monthly_summary self now m y = (Inr r, self) \<and>
     py_sum (map amount (filter (in_month m y) (expenses self))) = Inr (total r) \<and>
     (filter (in_month m y) (expenses self) = [] \<longrightarrow> total r = PInt 0) \<and>
     count r = length (filter (in_month m y) (expenses self)) \<and>
     distinct (map fst (by_category r)) \<and>
     set (map fst (by_category r)) = category ` set (filter (in_month m y) (expenses self)) \<and>
     (\<forall>c v. (c, v) \<in> set (by_category r) \<longrightarrow>
        v = PFloat (foldl float_add (Finite 0)
              (map float_amount
                (filter (\<lambda>e. category e = c) (filter (in_month m y) (expenses self))))))"
proof -
  let ?S = "filter (in_month m y) (expenses self)"
  have sel: "monthly_expenses self now m y = ?S"
    using assms(1,2) by (rule monthly_expenses_truthy)
  have tot: "py_sum (map amount ?S) =
      Inr (if ?S = [] then PInt 0 else PFloat (foldl float_add (Finite 0) (map float_amount ?S)))"
    using assms(3) by (rule py_sum_floats)
  from accumulate_floats [OF assms(3), of "[]"] obtain d where
    acc: "accumulate [] ?S = Inr d" and dist: "distinct (map fst d)" and
    keys: "set (map fst d) = category ` set ?S" and
    vals: "\<forall>v\<in>snd ` set d. \<exists>a. v = PFloat a" and
    look: "\<forall>s. lookup_float d (PStr s) =
             foldl float_add (lookup_float [] (PStr s))
               (map float_amount (filter (\<lambda>e. category e = PStr s) ?S))"
    by auto
  let ?r = "\<lparr>total = (if ?S = [] then PInt 0
                       else PFloat (foldl float_add (Finite 0) (map float_amount ?S))),
             by_category = d, count = length ?S\<rparr>"
  have res: "monthly_summary self now m y = (Inr ?r, self)"
    by (simp add: monthly_summary_def sel tot acc Let_def)
  have entry: "v = PFloat (foldl float_add (Finite 0)
        (map float_amount (filter (\<lambda>e. category e = c) ?S)))"
    if cv: "(c, v) \<in> set d" for c v
  proof -
    from cv have "c \<in> set (map fst d)"
      by force
    with keys obtain e where "e \<in> set ?S" "c = category e"
      by auto
    with assms(3) obtain s where s: "c = PStr s"
      using summable_category by force
    from cv dist have m: "map_of d c = Some v"
      by simp
    from cv vals obtain a where a: "v = PFloat a"
      by force
    from m a have "lookup_float d c = a"
      by (simp add: lookup_float_def)
    with look s have "a = foldl float_add (Finite 0)
        (map float_amount (filter (\<lambda>e. category e = c) ?S))"
      by (simp add: lookup_float_def)
    with a show ?thesis
      by simp
  qed
  from res tot dist keys entry show ?thesis
    by (intro exI [of _ ?r]) simp
qed

theorem monthly_summary_totals_witness:
  "py_truthy (PInt 3) \<and> py_truthy (PInt 2024) \<and>
   list_all summable (filter (in_month (PInt 3) (PInt 2024)) (expenses scenario)) \<and>
   (\<exists>r. monthly_summary scenario mid_march (PInt 3) (PInt 2024) = (Inr r, scenario) \<and>
        total r = PFloat (Finite 170) \<and> count r = 3 \<and>
        by_category r = [(PStr ''Food'', PFloat (Finite 70)),
                         (PStr ''Rent/Mortgage'', PFloat (Finite 100))])"
proof -
  have t: "py_truthy (PInt 3)" "py_truthy (PInt 2024)"
    by simp_all
  have s: "\<forall>e\<in>set (filter (in_month (PInt 3) (PInt 2024)) (expenses scenario)). summable e"
    by (simp add: scenario_def lunch_def snack_def rent_def summable_def)
  from monthly_summary_totals [OF t s, of mid_march] obtain r where
    r: "monthly_summary scenario mid_march (PInt 3) (PInt 2024) = (Inr r, scenario)"
    by blast
  with summary_scenario have
    "r = \<lparr>total = PFloat (Finite 170),
          by_category = [(PStr ''Food'', PFloat (Finite 70)),
                         (PStr ''Rent/Mortgage'', PFloat (Finite 100))],
          count = 3\<rparr>"
    by simp
  with r have "\<exists>r. monthly_summary scenario mid_march (PInt 3) (PInt 2024) = (Inr r, scenario) \<and>
        total r = PFloat (Finite 170) \<and> count r = 3 \<and>
        by_category r = [(PStr ''Food'', PFloat (Finite 70)),
                         (PStr ''Rent/Mortgage'', PFloat (Finite 100))]"
    by (intro exI [of _ r]) simp
  moreover from s have
    "list_all summable (filter (in_month (PInt 3) (PInt 2024)) (expenses scenario))"
    by (simp only: list_all_iff)
  ultimately show ?thesis
    using t by (intro conjI)
qed

text \<open>
  Claim C3 as the specification words it fails in three ways. A month given as zero is
  replaced by the month of the clock, so the summary is that of the current month although no
  record has month zero. With the amounts \<open>0.1\<close>, \<open>0.1\<close> and \<open>0.4\<close>, the second in
  another category, the total is \<open>0.6000000000000001\<close> while the two category values,
  \<open>0.5\<close> and \<open>0.1\<close>, add up to \<open>0.6\<close>, in floating point as well as exactly (the
  compensated sum of later CPython versions gives the same total here). On a ledger that
  holds a text amount the call raises \<open>TypeError\<close>.
\<close>

theorem monthly_summary_counterexample:
  "filter (in_month (PInt 0) (PInt 2024)) (expenses scenario) = [] \<and>
   fst (monthly_summary scenario mid_march (PInt 0) (PInt 2024)) =
     Inr \<lparr>total = PFloat (Finite 170),
          by_category = [(PStr ''Food'', PFloat (Finite 70)),
                         (PStr ''Rent/Mortgage'', PFloat (Finite 100))],
          count = 3\<rparr> \<and>
   fst (monthly_summary cents mid_march (PInt 3) (PInt 2024)) =
     Inr \<lparr>total = PFloat (Finite (5404319552844596 / 9007199254740992)),
          by_category = [(PStr ''Food'', PFloat (Finite (1 / 2))),
                         (PStr ''Other'', PFloat (Finite (3602879701896397 / 36028797018963968)))],
          count = 3\<rparr> \<and>
   py_sum [PFloat (Finite (1 / 2)), PFloat (Finite (3602879701896397 / 36028797018963968))] =
     Inr (PFloat (Finite (5404319552844595 / 9007199254740992))) \<and>
   (1 / 2 + 3602879701896397 / 36028797018963968 :: rat) \<noteq> 5404319552844596 / 9007199254740992 \<and>
   fst (monthly_summary texty mid_march (PInt 3) (PInt 2024)) = Inl (Exn TypeError LibraryText)"
proof -
  have "filter (in_month (PInt 0) (PInt 2024)) (expenses scenario) = []"
    by (simp add: in_month_def scenario_def lunch_def snack_def rent_def py_eq_def float_eq_def)
  moreover have
    "(1 / 2 + 3602879701896397 / 36028797018963968 :: rat) \<noteq> 5404319552844596 / 9007199254740992"
    by simp
  ultimately show ?thesis
    using summary_month_zero summary_cents sum_cents_values summary_texty
    by (intro conjI)
qed

end
